theory Spec2Isabelle
  imports Main
begin

section \<open>The speech-recognition session of react-native-vosk (ios/Vosk.swift)\<close>

text \<open>
  The Swift class \<^verbatim>\<open>Vosk\<close> keeps one model, one recognizer, the last decoded result and
  a timer, and hands work to three execution contexts: the audio tap, the serial queue
  \<^verbatim>\<open>recognizerQueue\<close> and the main queue. Every exported method and every dispatched
  block is embedded as a function on the record of the object's fields; a block that is
  dispatched is appended to the list standing for its queue and runs when the queue's
  head is taken. What the platform decides (whether a call throws, what the decoder
  answers, what the JSON decoder makes of a string) is an argument of the function.
\<close>

subsection \<open>Data\<close>

text \<open>\<^verbatim>\<open>struct VoskResult { var partial: String?; var text: String? }\<close>\<close>

record VoskResult =
  partial :: "string option"
  text' :: "string option"

text \<open>\<^verbatim>\<open>struct VoskStartOptions { var grammar: [String]?; var timeout: Int? }\<close>\<close>

record VoskStartOptions =
  grammar :: "string list option"
  timeout :: "int option"

text \<open>The class \<^verbatim>\<open>VoskModel\<close> is identified by the name it was loaded from.\<close>

datatype VoskModel = VoskModel string

text \<open>A recognizer is an opaque pointer; a timer is an object reference.\<close>

type_synonym recognizer = nat
type_synonym timer = nat

text \<open>An audio buffer: its 16-bit channel data (absent for another sample format).\<close>

record AVAudioPCMBuffer =
  int16ChannelData :: "int list option"
  frameLength :: nat

text \<open>The names listed by \<^verbatim>\<open>supportedEvents\<close>; an event is a name and a body.\<close>

datatype event_name = OnError | OnResult | OnFinalResult | OnPartialResult | OnTimeout

type_synonym event = "event_name \<times> string"

text \<open>What a promise is settled with: \<^verbatim>\<open>resolve(value)\<close> or \<^verbatim>\<open>reject(code, message, error)\<close>.\<close>

datatype js_value = JBool bool | JString string | JUndefined

datatype promise = Resolve js_value | Reject string string

text \<open>
  Blocks given to \<^verbatim>\<open>DispatchQueue.main\<close>: the delivery of a decode result (the tap's inner
  block), the creation of the timeout timer (from \<^verbatim>\<open>start\<close>) and the release of the
  recognizer (from \<^verbatim>\<open>stopInternal\<close>). Blocks given to \<^verbatim>\<open>processingQueue\<close>: the decoding of a
  buffer (from the tap) and the forced stop (from the timer). \<open>Decoding r buffer\<close> is a
  decoding block in progress: \<^verbatim>\<open>recognizeData\<close> has passed its guards and bound the
  recognizer \<open>r\<close> to a local constant, and has not called the decoder yet.
\<close>

datatype main_block = DeliverResult "string option" bool | ArmTimer int | FreeRecognizer

datatype processing_block =
    Recognize AVAudioPCMBuffer
  | Decoding recognizer AVAudioPCMBuffer
  | TimeoutStop

text \<open>
  The calls made on recognizers, in the order they happen:
  \<^verbatim>\<open>vosk_recognizer_accept_waveform\<close> and \<^verbatim>\<open>vosk_recognizer_free\<close>.
\<close>

datatype decoder_call = AcceptWaveform recognizer AVAudioPCMBuffer | RecognizerFree recognizer

record vosk =
  currentModel :: "VoskModel option"
  recognizer :: "recognizer option"
  lastRecognizedResult :: "VoskResult option"
  timeoutTimer :: "timer option"
  hasListener :: bool
  isCleaningUp :: bool
  tapInstalled :: bool
  audioEngineRunning :: bool
  processingQueue :: "processing_block list"
  mainQueue :: "main_block list"
  mainAfter :: "(nat \<times> main_block) list"
  scheduledTimers :: "(timer \<times> nat) list"
  permissionRequests :: nat
  now :: nat
  events :: "event list"
  decoderCalls :: "decoder_call list"
  nextRecognizer :: nat
  nextTimer :: nat

text \<open>
  The first six fields are the stored properties of the class. \<open>tapInstalled\<close> and
  \<open>audioEngineRunning\<close> are the state of \<^verbatim>\<open>inputNode\<close> and \<^verbatim>\<open>audioEngine\<close> that the code reads
  or writes. \<open>mainAfter\<close> holds the blocks of \<^verbatim>\<open>asyncAfter\<close> with their deadline and
  \<open>scheduledTimers\<close> the timers of the main run loop with their fire date, both in
  milliseconds of the clock \<open>now\<close>. \<open>permissionRequests\<close> counts the callbacks of
  \<^verbatim>\<open>requestRecordPermission\<close> that have not run yet. \<open>events\<close> logs the calls of
  \<^verbatim>\<open>sendEvent\<close> and \<open>decoderCalls\<close> those made on recognizers; \<open>nextRecognizer\<close> and
  \<open>nextTimer\<close> number the recognizers and timers created so far.
  The shared \<^verbatim>\<open>AVAudioSession\<close> (category, active flag) and the negotiated sample format
  are not part of the record: the code only writes them.
\<close>

definition initial :: vosk where
  "initial = \<lparr> currentModel = None, recognizer = None, lastRecognizedResult = None,
     timeoutTimer = None, hasListener = False, isCleaningUp = False,
     tapInstalled = False, audioEngineRunning = False,
     processingQueue = [], mainQueue = [], mainAfter = [], scheduledTimers = [],
     permissionRequests = 0, now = 0, events = [], decoderCalls = [],
     nextRecognizer = 0, nextTimer = 0 \<rparr>"

definition sendEvent :: "event_name \<Rightarrow> string \<Rightarrow> vosk \<Rightarrow> vosk" where
  "sendEvent name body s = s\<lparr>events := events s @ [(name, body)]\<rparr>"

text \<open>The events sent between an earlier state and a later one.\<close>

definition emitted :: "vosk \<Rightarrow> vosk \<Rightarrow> event list" where
  "emitted s s' = drop (length (events s)) (events s')"

text \<open>
  The optional binding \<^verbatim>\<open>let t = x, !t.isEmpty\<close> of a condition: it binds the string of
  \<open>x\<close> when there is one and it is not empty.
\<close>

definition nonEmpty :: "string option \<Rightarrow> string option" where
  "nonEmpty x = (case x of None \<Rightarrow> None | Some t \<Rightarrow> if t = [] then None else Some t)"

text \<open>\<^verbatim>\<open>lastRecognizedResult?.partial\<close>: optional chaining flattens the two options.\<close>

definition lastPartial :: "vosk \<Rightarrow> string option" where
  "lastPartial s = (case lastRecognizedResult s of None \<Rightarrow> None | Some r \<Rightarrow> partial r)"

subsection \<open>Observers and model loading\<close>

definition startObserving :: "vosk \<Rightarrow> vosk" where
  "startObserving s = s\<lparr>hasListener := True\<rparr>"

definition stopObserving :: "vosk \<Rightarrow> vosk" where
  "stopObserving s = s\<lparr>hasListener := False\<rparr>"

text \<open>
  \<^verbatim>\<open>loadModel\<close>. The initialiser \<^verbatim>\<open>VoskModel(name:)\<close> belongs to a file that is not among the
  sources; whether it throws for a name is the argument \<open>loads\<close>.
\<close>

definition loadModel :: "(string \<Rightarrow> bool) \<Rightarrow> string \<Rightarrow> vosk \<Rightarrow> vosk \<times> promise" where
  "loadModel loads name s =
     (let s1 = (if currentModel s \<noteq> None then s\<lparr>currentModel := None\<rparr> else s)
      in if loads name
         then (s1\<lparr>currentModel := Some (VoskModel name)\<rparr>, Resolve (JBool True))
         else (s1, Reject ''load_model'' ''Failed to load model''))"

subsection \<open>Starting\<close>

text \<open>
  What the platform decides during one call of \<^verbatim>\<open>start\<close>. A field of type
  \<open>string option\<close> is \<open>Some d\<close> when the call throws an error whose
  \<^verbatim>\<open>localizedDescription\<close> is \<open>d\<close>. \<open>formatPcm\<close> tells whether \<^verbatim>\<open>AVAudioFormat(...)\<close> returns
  a format, \<open>vosk_recognizer_new\<close> whether the decoder returns a non-null pointer.
\<close>

record start_env =
  setCategory :: "string option"
  setActive :: "string option"
  formatPcm :: bool
  encodeGrammar :: "string option"
  vosk_recognizer_new :: bool

text \<open>The assignment \<^verbatim>\<open>recognizer = vosk_recognizer_new...(...)\<close>: the old pointer is overwritten.\<close>

definition assignRecognizer :: "start_env \<Rightarrow> vosk \<Rightarrow> vosk" where
  "assignRecognizer env s =
     (if vosk_recognizer_new env
      then s\<lparr>recognizer := Some (nextRecognizer s), nextRecognizer := Suc (nextRecognizer s)\<rparr>
      else s\<lparr>recognizer := None\<rparr>)"

text \<open>The \<^verbatim>\<open>catch\<close> block of \<^verbatim>\<open>start\<close>.\<close>

definition startCatch :: "string \<Rightarrow> vosk \<Rightarrow> vosk \<times> promise" where
  "startCatch description s =
     (let s1 = (if hasListener s
                then sendEvent OnError (''Unable to start AVAudioEngine: '' @ description) s
                else s);
          s2 = (case recognizer s1 of
                  Some r \<Rightarrow> s1\<lparr>decoderCalls := decoderCalls s1 @ [RecognizerFree r], recognizer := None\<rparr>
                | None \<Rightarrow> s1)
      in (s2, Reject ''start'' description))"

text \<open>
  The rest of the \<^verbatim>\<open>do\<close> block once the recognizer is assigned: the tap is installed, the
  permission is requested (its callback runs later), the creation of the timer is
  dispatched to the main queue when a timeout is given, and the promise is resolved.
\<close>

definition startListening :: "int option \<Rightarrow> vosk \<Rightarrow> vosk \<times> promise" where
  "startListening timeout_ms s =
     (let s1 = s\<lparr>tapInstalled := True\<rparr>;
          s2 = s1\<lparr>permissionRequests := Suc (permissionRequests s1)\<rparr>;
          s3 = (case timeout_ms of
                  Some t \<Rightarrow> s2\<lparr>mainQueue := mainQueue s2 @ [ArmTimer t]\<rparr>
                | None \<Rightarrow> s2)
      in (s3, Resolve (JString ''Recognizer successfully started'')))"

text \<open>
  \<^verbatim>\<open>start\<close>. The argument \<open>options\<close> is the result of decoding \<^verbatim>\<open>rawOptions\<close>: \<open>None\<close> when no
  options were passed or when decoding them failed (the failure is only printed).
\<close>

definition start :: "start_env \<Rightarrow> VoskStartOptions option \<Rightarrow> vosk \<Rightarrow> vosk \<times> promise" where
  "start env options s =
     (case currentModel s of
        None \<Rightarrow> (s, Reject ''start'' ''No model loaded'')
      | Some model \<Rightarrow>
          (let grammar_opt = (case options of None \<Rightarrow> None | Some opts \<Rightarrow> grammar opts);
               timeout_opt = (case options of None \<Rightarrow> None | Some opts \<Rightarrow> timeout opts)
           in case setCategory env of
                Some d \<Rightarrow> startCatch d s
              | None \<Rightarrow>
                  (case setActive env of
                     Some d \<Rightarrow> startCatch d s
                   | None \<Rightarrow>
                       if \<not> formatPcm env
                       then (s, Reject ''start'' ''Unable to create audio format'')
                       else if (case grammar_opt of Some g \<Rightarrow> g \<noteq> [] | None \<Rightarrow> False)
                       then (case encodeGrammar env of
                               Some d \<Rightarrow> startCatch d s
                             | None \<Rightarrow> startListening timeout_opt (assignRecognizer env s))
                       else startListening timeout_opt (assignRecognizer env s))))"

text \<open>
  The callback of \<^verbatim>\<open>requestRecordPermission\<close>: the engine is started when access is granted,
  and an error of \<^verbatim>\<open>audioEngine.start()\<close> is dropped by \<^verbatim>\<open>try?\<close>.
\<close>

definition permissionCallback :: "bool \<Rightarrow> bool \<Rightarrow> vosk \<Rightarrow> vosk" where
  "permissionCallback success engineStarts s =
     (if success \<and> engineStarts then s\<lparr>audioEngineRunning := True\<rparr> else s)"

subsection \<open>Stopping\<close>

text \<open>\<^verbatim>\<open>Timer.invalidate()\<close> takes the timer off the run loop.\<close>

definition invalidate :: "timer \<Rightarrow> vosk \<Rightarrow> vosk" where
  "invalidate t s = s\<lparr>scheduledTimers := filter (\<lambda>(t', _). t' \<noteq> t) (scheduledTimers s)\<rparr>"

definition stopInternal :: "bool \<Rightarrow> vosk \<Rightarrow> vosk" where
  "stopInternal withoutEvents s =
     (let s1 = s\<lparr>tapInstalled := False\<rparr>;
          s2 = (if audioEngineRunning s1
                then (let s1' = s1\<lparr>audioEngineRunning := False\<rparr>
                      in if hasListener s1' \<and> \<not> withoutEvents
                         then (case nonEmpty (lastPartial s1') of
                                 Some p \<Rightarrow> sendEvent OnFinalResult p s1'
                               | None \<Rightarrow> s1')
                         else s1')
                else s1);
          s3 = s2\<lparr>lastRecognizedResult := None\<rparr>;
          s4 = (case timeoutTimer s3 of Some t \<Rightarrow> invalidate t s3 | None \<Rightarrow> s3);
          s5 = s4\<lparr>timeoutTimer := None\<rparr>
      in s5\<lparr>mainAfter := mainAfter s5 @ [(now s5 + 500, FreeRecognizer)]\<rparr>)"

definition stop :: "vosk \<Rightarrow> vosk" where
  "stop s = (stopInternal False (s\<lparr>isCleaningUp := True\<rparr>))\<lparr>isCleaningUp := False\<rparr>"

definition unload :: "vosk \<Rightarrow> vosk" where
  "unload s =
     (stopInternal False (s\<lparr>isCleaningUp := True\<rparr>))\<lparr>isCleaningUp := False, currentModel := None\<rparr>"

subsection \<open>Decoding and result delivery\<close>

text \<open>
  What the decoder answers to one buffer: the value of \<^verbatim>\<open>vosk_recognizer_accept_waveform\<close>
  and the strings of \<^verbatim>\<open>vosk_recognizer_result\<close> and \<^verbatim>\<open>vosk_recognizer_partial_result\<close>
  after \<^verbatim>\<open>String(validatingUTF8:)\<close> (\<open>None\<close>: a null pointer or invalid UTF-8).
\<close>

record decoder_answer =
  accept_waveform :: int
  result_string :: "string option"
  partial_result_string :: "string option"

definition recognizeData ::
  "decoder_answer \<Rightarrow> AVAudioPCMBuffer \<Rightarrow> vosk \<Rightarrow> (string option \<times> bool) \<times> vosk" where
  "recognizeData answer buffer s =
     (if isCleaningUp s then ((None, False), s)
      else case recognizer s of
        None \<Rightarrow> ((None, False), s)
      | Some r \<Rightarrow>
          (case int16ChannelData buffer of
             None \<Rightarrow> ((None, False), s)
           | Some channelData \<Rightarrow>
               (let endOfSpeech = accept_waveform answer;
                    s1 = s\<lparr>decoderCalls := decoderCalls s @ [AcceptWaveform r buffer]\<rparr>
                in case (if endOfSpeech = 1 then result_string answer
                         else partial_result_string answer) of
                     None \<Rightarrow> ((None, False), s1)
                   | Some stringResult \<Rightarrow> ((Some stringResult, endOfSpeech = 1), s1))))"

text \<open>
  The two halves of \<^verbatim>\<open>recognizeData\<close>. The guards read \<open>isCleaningUp\<close>, bind
  \<^verbatim>\<open>self.recognizer\<close> to the local constant \<^verbatim>\<open>recognizer\<close> and read the channel data; the
  calls \<^verbatim>\<open>vosk_recognizer_accept_waveform\<close> and \<^verbatim>\<open>vosk_recognizer_result\<close> (or
  \<^verbatim>\<open>vosk_recognizer_partial_result\<close>) are then made on that constant, whatever
  \<^verbatim>\<open>self.recognizer\<close> has become in the meantime.
\<close>

definition recognizeGuards :: "AVAudioPCMBuffer \<Rightarrow> vosk \<Rightarrow> recognizer option" where
  "recognizeGuards buffer s =
     (if isCleaningUp s then None
      else case recognizer s of
        None \<Rightarrow> None
      | Some r \<Rightarrow> (case int16ChannelData buffer of None \<Rightarrow> None | Some channelData \<Rightarrow> Some r))"

definition recognizeCalls ::
  "decoder_answer \<Rightarrow> recognizer \<Rightarrow> AVAudioPCMBuffer \<Rightarrow> vosk
     \<Rightarrow> (string option \<times> bool) \<times> vosk" where
  "recognizeCalls answer r buffer s =
     (let endOfSpeech = accept_waveform answer;
          s1 = s\<lparr>decoderCalls := decoderCalls s @ [AcceptWaveform r buffer]\<rparr>
      in case (if endOfSpeech = 1 then result_string answer
               else partial_result_string answer) of
           None \<Rightarrow> ((None, False), s1)
         | Some stringResult \<Rightarrow> ((Some stringResult, endOfSpeech = 1), s1))"

text \<open>
  The block the tap dispatches to the main queue. \<open>jsonDecode\<close> stands for
  \<^verbatim>\<open>JSONDecoder().decode(VoskResult.self, from:)\<close>, \<open>None\<close> when it throws.
\<close>

definition deliverResult ::
  "(string \<Rightarrow> VoskResult option) \<Rightarrow> string option \<Rightarrow> bool \<Rightarrow> vosk \<Rightarrow> vosk" where
  "deliverResult jsonDecode result completed s =
     (case result of
        None \<Rightarrow> s
      | Some json \<Rightarrow>
          (case jsonDecode json of
             None \<Rightarrow> s
           | Some parsedResult \<Rightarrow>
               (let s1 =
                  (case (if completed \<and> hasListener s
                         then nonEmpty (text' parsedResult) else None) of
                     Some t \<Rightarrow> sendEvent OnResult t s
                   | None \<Rightarrow>
                       (case (if \<not> completed \<and> hasListener s
                              then nonEmpty (partial parsedResult) else None) of
                          Some p \<Rightarrow>
                            if lastPartial s \<noteq> Some p
                            then sendEvent OnPartialResult p s
                            else s
                        | None \<Rightarrow> s))
                in s1\<lparr>lastRecognizedResult := Some parsedResult\<rparr>)))"

text \<open>The tap's closure, run by the audio engine for each buffer.\<close>

definition tap :: "AVAudioPCMBuffer \<Rightarrow> vosk \<Rightarrow> vosk" where
  "tap buffer s =
     (if isCleaningUp s then s
      else s\<lparr>processingQueue := processingQueue s @ [Recognize buffer]\<rparr>)"

text \<open>
  The blocks of the processing queue and of the main queue. The timer is scheduled
  \<^verbatim>\<open>Double(timeout) / 1000\<close> seconds, that is \<open>timeout\<close> milliseconds, from now; \<^verbatim>\<open>Timer\<close>
  replaces an interval that is not positive by 0.1 ms, which is no time at all at the
  resolution of the clock.
\<close>

fun runProcessingBlock :: "decoder_answer \<Rightarrow> processing_block \<Rightarrow> vosk \<Rightarrow> vosk" where
  "runProcessingBlock answer (Recognize buffer) s =
     (let (res, s1) = recognizeData answer buffer s
      in s1\<lparr>mainQueue := mainQueue s1 @ [DeliverResult (fst res) (snd res)]\<rparr>)"
| "runProcessingBlock answer (Decoding r buffer) s =
     (let (res, s1) = recognizeCalls answer r buffer s
      in s1\<lparr>mainQueue := mainQueue s1 @ [DeliverResult (fst res) (snd res)]\<rparr>)"
| "runProcessingBlock answer TimeoutStop s = sendEvent OnTimeout [] (stopInternal True s)"

fun runMainBlock :: "(string \<Rightarrow> VoskResult option) \<Rightarrow> main_block \<Rightarrow> vosk \<Rightarrow> vosk" where
  "runMainBlock jsonDecode (DeliverResult result completed) s =
     deliverResult jsonDecode result completed s"
| "runMainBlock jsonDecode (ArmTimer t) s =
     s\<lparr>timeoutTimer := Some (nextTimer s),
       scheduledTimers := scheduledTimers s @ [(nextTimer s, now s + nat t)],
       nextTimer := Suc (nextTimer s)\<rparr>"
| "runMainBlock jsonDecode FreeRecognizer s =
     (case recognizer s of
        Some r \<Rightarrow> s\<lparr>decoderCalls := decoderCalls s @ [RecognizerFree r], recognizer := None\<rparr>
      | None \<Rightarrow> s)"

subsection \<open>The JavaScript wrapper (index.js)\<close>

text \<open>
  \<^verbatim>\<open>requestRecordPermission\<close>: \<open>os\<close> is \<^verbatim>\<open>Platform.OS\<close> and \<open>granted\<close> the answer of
  \<^verbatim>\<open>PermissionsAndroid.request\<close>.
\<close>

datatype permission_status = GRANTED | DENIED | NEVER_ASK_AGAIN

definition requestRecordPermission :: "string \<Rightarrow> permission_status \<Rightarrow> bool" where
  "requestRecordPermission os granted = (if os = ''ios'' then True else granted = GRANTED)"

text \<open>
  \<^verbatim>\<open>start = async options => { if (await this.requestRecordPermission()) return
  VoskModule.start(options); }\<close>. The native method is an argument: on iOS it is \<open>start\<close>
  above, on Android a module that is not among the sources. An \<^verbatim>\<open>async\<close> function that
  ends without \<^verbatim>\<open>return\<close> resolves its promise with \<^verbatim>\<open>undefined\<close>.
\<close>

definition jsStart ::
  "('o \<Rightarrow> vosk \<Rightarrow> vosk \<times> promise) \<Rightarrow> string \<Rightarrow> permission_status \<Rightarrow> 'o \<Rightarrow> vosk
     \<Rightarrow> vosk \<times> promise" where
  "jsStart nativeStart os granted options s =
     (if requestRecordPermission os granted then nativeStart options s
      else (s, Resolve JUndefined))"

subsection \<open>Runs\<close>

text \<open>
  One step is one call of an exported method, one run of the tap, one block taken from
  the head of a queue, the moment an \<^verbatim>\<open>asyncAfter\<close> block or a timer falls due, or the
  passing of time. The exported methods are called on the queue of the module, the tap
  on the thread of the audio engine and the blocks on their queues, so a method may run
  between the dispatch of a block and its execution. Each step is taken as a whole: a
  run interleaves methods and blocks but not the statements inside them, with one
  exception. A decoding block can also be run in two steps: \<open>BeginRecognize\<close> runs the
  block at the head of the processing queue through its guards, leaving it there as a
  block in progress with the recognizer it has bound (or ending it when a guard fails),
  and \<open>RunProcessing\<close> then makes the decoder calls on that recognizer. Other blocks
  and methods may run in between.
\<close>

datatype action =
    CallLoadModel string
  | CallStart "VoskStartOptions option" start_env
  | CallStop
  | CallUnload
  | StartObserving
  | StopObserving
  | PermissionCallback bool bool
  | TapBuffer AVAudioPCMBuffer
  | BeginRecognize
  | RunProcessing decoder_answer
  | RunMain
  | Elapse nat
  | AfterDue
  | TimerFire

fun step ::
  "(string \<Rightarrow> bool) \<Rightarrow> (string \<Rightarrow> VoskResult option) \<Rightarrow> action \<Rightarrow> vosk \<Rightarrow> vosk" where
  "step loads jsonDecode (CallLoadModel name) s = fst (loadModel loads name s)"
| "step loads jsonDecode (CallStart options env) s = fst (start env options s)"
| "step loads jsonDecode CallStop s = stop s"
| "step loads jsonDecode CallUnload s = unload s"
| "step loads jsonDecode StartObserving s = startObserving s"
| "step loads jsonDecode StopObserving s = stopObserving s"
| "step loads jsonDecode (PermissionCallback success engineStarts) s =
     (if permissionRequests s = 0 then s
      else permissionCallback success engineStarts
             (s\<lparr>permissionRequests := permissionRequests s - 1\<rparr>))"
| "step loads jsonDecode (TapBuffer buffer) s =
     (if tapInstalled s \<and> audioEngineRunning s then tap buffer s else s)"
| "step loads jsonDecode BeginRecognize s =
     (case processingQueue s of
        Recognize buffer # bs \<Rightarrow>
          (case recognizeGuards buffer s of
             Some r \<Rightarrow> s\<lparr>processingQueue := Decoding r buffer # bs\<rparr>
           | None \<Rightarrow>
               s\<lparr>processingQueue := bs, mainQueue := mainQueue s @ [DeliverResult None False]\<rparr>)
      | _ \<Rightarrow> s)"
| "step loads jsonDecode (RunProcessing answer) s =
     (case processingQueue s of
        [] \<Rightarrow> s
      | b # bs \<Rightarrow> runProcessingBlock answer b (s\<lparr>processingQueue := bs\<rparr>))"
| "step loads jsonDecode RunMain s =
     (case mainQueue s of
        [] \<Rightarrow> s
      | b # bs \<Rightarrow> runMainBlock jsonDecode b (s\<lparr>mainQueue := bs\<rparr>))"
| "step loads jsonDecode (Elapse d) s = s\<lparr>now := now s + d\<rparr>"
| "step loads jsonDecode AfterDue s =
     (case mainAfter s of
        [] \<Rightarrow> s
      | (deadline, b) # rest \<Rightarrow>
          if deadline \<le> now s
          then s\<lparr>mainAfter := rest, mainQueue := mainQueue s @ [b]\<rparr>
          else s)"
| "step loads jsonDecode TimerFire s =
     (case filter (\<lambda>(t, fireDate). fireDate \<le> now s) (scheduledTimers s) of
        [] \<Rightarrow> s
      | (t, fireDate) # _ \<Rightarrow>
          (invalidate t s)\<lparr>processingQueue := processingQueue s @ [TimeoutStop]\<rparr>)"

fun run ::
  "(string \<Rightarrow> bool) \<Rightarrow> (string \<Rightarrow> VoskResult option) \<Rightarrow> action list \<Rightarrow> vosk \<Rightarrow> vosk" where
  "run loads jsonDecode [] s = s"
| "run loads jsonDecode (a # as) s = run loads jsonDecode as (step loads jsonDecode a s)"


subsection \<open>Calls on a released recognizer\<close>

text \<open>
  Reading the log of decoder calls from its start: no \<^verbatim>\<open>vosk_recognizer_accept_waveform\<close>
  is made on a recognizer that an earlier \<^verbatim>\<open>vosk_recognizer_free\<close> (or the list \<open>released\<close>)
  has released.
\<close>

fun noDecodeAfterFree :: "recognizer list \<Rightarrow> decoder_call list \<Rightarrow> bool" where
  "noDecodeAfterFree released [] = True"
| "noDecodeAfterFree released (AcceptWaveform r buffer # calls) =
     (r \<notin> set released \<and> noDecodeAfterFree released calls)"
| "noDecodeAfterFree released (RecognizerFree r # calls) =
     noDecodeAfterFree (r # released) calls"

subsection \<open>The loaded state\<close>

text \<open>
  The class keeps no state variable; the state the specification calls Loaded is read
  off the fields. A session is loaded when it references a model and holds nothing of a
  listening period: no recognizer, no tap, a stopped engine and no timer.
\<close>

definition isLoaded :: "vosk \<Rightarrow> bool" where
  "isLoaded s =
     (currentModel s \<noteq> None \<and> recognizer s = None \<and> \<not> tapInstalled s
      \<and> \<not> audioEngineRunning s \<and> timeoutTimer s = None)"


subsection \<open>Sample inputs\<close>

text \<open>
  Concrete platform answers for the runs evaluated below: a loader that accepts every
  name, a stand-in for the JSON decoder that reads \<open>p:\<close> followed by a partial text and
  \<open>t:\<close> followed by a final text, decoder answers of these two shapes, a buffer, an
  environment in which no call of \<^verbatim>\<open>start\<close> fails, one in which activating the audio
  session throws, one in which the audio format cannot be constructed, and options that
  carry a timeout only.
\<close>

definition anyModelLoads :: "string \<Rightarrow> bool" where
  "anyModelLoads name = True"

definition onlyEnglishLoads :: "string \<Rightarrow> bool" where
  "onlyEnglishLoads name = (name = ''model-en-us'')"

definition sampleDecode :: "string \<Rightarrow> VoskResult option" where
  "sampleDecode json =
     (case json of
        c # d # rest \<Rightarrow>
          if c = CHR ''p'' \<and> d = CHR '':'' then Some \<lparr>partial = Some rest, text' = None\<rparr>
          else if c = CHR ''t'' \<and> d = CHR '':'' then Some \<lparr>partial = None, text' = Some rest\<rparr>
          else None
      | _ \<Rightarrow> None)"

definition answerPartial :: "string \<Rightarrow> decoder_answer" where
  "answerPartial p =
     \<lparr>accept_waveform = 0, result_string = None, partial_result_string = Some (''p:'' @ p)\<rparr>"

definition answerFinal :: "string \<Rightarrow> decoder_answer" where
  "answerFinal t =
     \<lparr>accept_waveform = 1, result_string = Some (''t:'' @ t), partial_result_string = None\<rparr>"

definition sampleBuffer :: AVAudioPCMBuffer where
  "sampleBuffer = \<lparr>int16ChannelData = Some [0, 0], frameLength = 2\<rparr>"

definition envNoFailure :: start_env where
  "envNoFailure = \<lparr>setCategory = None, setActive = None, formatPcm = True,
     encodeGrammar = None, vosk_recognizer_new = True\<rparr>"

definition envSetActiveThrows :: start_env where
  "envSetActiveThrows = \<lparr>setCategory = None, setActive = Some ''session busy'',
     formatPcm = True, encodeGrammar = None, vosk_recognizer_new = True\<rparr>"

definition envNoAudioFormat :: start_env where
  "envNoAudioFormat = \<lparr>setCategory = None, setActive = None, formatPcm = False,
     encodeGrammar = None, vosk_recognizer_new = True\<rparr>"

definition timeoutOnly :: "int \<Rightarrow> VoskStartOptions option" where
  "timeoutOnly t = Some \<lparr>grammar = None, timeout = Some t\<rparr>"

text \<open>A listener subscribes and a model is loaded.\<close>

definition loaded :: vosk where
  "loaded = run anyModelLoads sampleDecode
     [StartObserving, CallLoadModel ''model-en-us''] initial"

text \<open>Then \<^verbatim>\<open>start\<close> succeeds, access to the microphone is granted and the engine starts.\<close>

definition listening :: vosk where
  "listening = run anyModelLoads sampleDecode
     [CallStart None envNoFailure, PermissionCallback True True] loaded"

text \<open>The same session after the decoder has answered one buffer with the partial text \<open>turn on\<close>.\<close>

definition pendingPartial :: vosk where
  "pendingPartial = run anyModelLoads sampleDecode
     [TapBuffer sampleBuffer, RunProcessing (answerPartial ''turn on''), RunMain] listening"

text \<open>
  The listening session stopped with one buffer still in the decode queue, 500 ms later:
  the release block has been handed to the main queue.
\<close>

definition stoppedWithBuffer :: vosk where
  "stoppedWithBuffer = run anyModelLoads sampleDecode
     [TapBuffer sampleBuffer, CallStop, Elapse 500, AfterDue] listening"

section \<open>Properties\<close>

lemmas sample_defs =
  initial_def anyModelLoads_def sampleDecode_def answerPartial_def answerFinal_def
  sampleBuffer_def envNoFailure_def envSetActiveThrows_def envNoAudioFormat_def
  timeoutOnly_def loaded_def
  listening_def pendingPartial_def stoppedWithBuffer_def

lemmas code_defs =
  loadModel_def start_def startListening_def assignRecognizer_def startCatch_def
  permissionCallback_def stopInternal_def stop_def unload_def recognizeData_def
  recognizeGuards_def recognizeCalls_def
  deliverResult_def tap_def sendEvent_def lastPartial_def nonEmpty_def invalidate_def
  startObserving_def stopObserving_def emitted_def Let_def

subsection \<open>Events sent by one block\<close>

lemma emitted_deliverResult:
  "emitted s (deliverResult jsonDecode result completed s) =
     (case result of
        None \<Rightarrow> []
      | Some json \<Rightarrow>
          (case jsonDecode json of
             None \<Rightarrow> []
           | Some r \<Rightarrow>
               if completed \<and> hasListener s \<and> (case text' r of Some t \<Rightarrow> t \<noteq> [] | None \<Rightarrow> False)
               then [(OnResult, the (text' r))]
               else if \<not> completed \<and> hasListener s
                       \<and> (case partial r of Some p \<Rightarrow> p \<noteq> [] | None \<Rightarrow> False)
                       \<and> lastPartial s \<noteq> partial r
               then [(OnPartialResult, the (partial r))]
               else []))"
  by (simp add: deliverResult_def emitted_def Let_def sendEvent_def nonEmpty_def
      split: option.splits)

lemma emitted_stopInternal:
  "emitted s (stopInternal withoutEvents s) =
     (if audioEngineRunning s \<and> hasListener s \<and> \<not> withoutEvents
      then (case lastPartial s of
              Some p \<Rightarrow> if p \<noteq> [] then [(OnFinalResult, p)] else []
            | None \<Rightarrow> [])
      else [])"
  by (simp add: stopInternal_def emitted_def Let_def sendEvent_def lastPartial_def
      nonEmpty_def invalidate_def split: option.splits)

lemma emitted_stop:
  "emitted s (stop s) = emitted s (stopInternal False s)"
  by (simp add: stop_def stopInternal_def emitted_def Let_def sendEvent_def lastPartial_def
      nonEmpty_def invalidate_def split: option.splits)

lemma emitted_unload:
  "emitted s (unload s) = emitted s (stopInternal False s)"
  by (simp add: unload_def stopInternal_def emitted_def Let_def sendEvent_def lastPartial_def
      nonEmpty_def invalidate_def split: option.splits)

lemma lastPartial_deliverResult:
  "jsonDecode json = Some r \<Longrightarrow>
     lastPartial (deliverResult jsonDecode (Some json) completed s) = partial r"
  by (simp add: deliverResult_def Let_def lastPartial_def sendEvent_def split: option.splits)

lemma deliverResult_keeps:
  "hasListener (deliverResult jsonDecode result completed s) = hasListener s"
  "audioEngineRunning (deliverResult jsonDecode result completed s) = audioEngineRunning s"
  by (simp_all add: deliverResult_def Let_def sendEvent_def split: option.splits)

lemma loaded_eq:
  "loaded = initial\<lparr>currentModel := Some (VoskModel ''model-en-us''), hasListener := True\<rparr>"
  by (simp add: sample_defs code_defs)

lemma listening_eq:
  "listening = \<lparr>currentModel = Some (VoskModel ''model-en-us''), recognizer = Some 0,
     lastRecognizedResult = None, timeoutTimer = None, hasListener = True,
     isCleaningUp = False, tapInstalled = True, audioEngineRunning = True,
     processingQueue = [], mainQueue = [], mainAfter = [], scheduledTimers = [],
     permissionRequests = 0, now = 0, events = [], decoderCalls = [],
     nextRecognizer = 1, nextTimer = 0\<rparr>"
  by (simp add: sample_defs code_defs)

lemma pendingPartial_eq:
  "pendingPartial = listening\<lparr>
     lastRecognizedResult := Some \<lparr>partial = Some ''turn on'', text' = None\<rparr>,
     events := [(OnPartialResult, ''turn on'')],
     decoderCalls := [AcceptWaveform 0 sampleBuffer]\<rparr>"
  unfolding pendingPartial_def listening_eq
  by (simp add: sample_defs code_defs)

lemma stoppedWithBuffer_eq:
  "stoppedWithBuffer = listening\<lparr>
     tapInstalled := False, audioEngineRunning := False,
     processingQueue := [Recognize sampleBuffer], mainQueue := [FreeRecognizer],
     now := 500\<rparr>"
  unfolding stoppedWithBuffer_def listening_eq
  by (simp add: sample_defs code_defs)

lemma emitted_timeoutStop:
  "emitted s (runProcessingBlock answer TimeoutStop s) = [(OnTimeout, [])]"
  by (simp add: emitted_def sendEvent_def stopInternal_def Let_def invalidate_def lastPartial_def
      nonEmpty_def split: option.splits)


subsection \<open>The outcomes of start\<close>

lemma snd_startCatch:
  "snd (startCatch d s) = Reject ''start'' d"
  by (simp add: startCatch_def Let_def)

lemma start_resolves:
  assumes "snd (start env options s) = Resolve v"
  shows "start env options s =
           startListening (case options of None \<Rightarrow> None | Some opts \<Rightarrow> timeout opts)
             (assignRecognizer env s)"
proof (cases "currentModel s")
  case None
  with assms show ?thesis by (simp add: start_def)
next
  case model: (Some model)
  show ?thesis
  proof (cases "setCategory env")
    case (Some d)
    with assms model show ?thesis by (simp add: start_def snd_startCatch)
  next
    case category: None
    show ?thesis
    proof (cases "setActive env")
      case (Some d)
      with assms model category show ?thesis by (simp add: start_def snd_startCatch)
    next
      case active: None
      show ?thesis
      proof (cases "encodeGrammar env")
        case None
        with assms model category active show ?thesis
          by (simp add: start_def Let_def split: if_splits)
      next
        case (Some d)
        with assms model category active show ?thesis
          by (simp add: start_def snd_startCatch Let_def split: if_splits)
      qed
    qed
  qed
qed

subsection \<open>The shutdown and the decoding block\<close>

lemma stopInternal_keeps:
  "recognizer (stopInternal withoutEvents s) = recognizer s"
  "decoderCalls (stopInternal withoutEvents s) = decoderCalls s"
  "nextRecognizer (stopInternal withoutEvents s) = nextRecognizer s"
  "processingQueue (stopInternal withoutEvents s) = processingQueue s"
  by (simp_all add: stopInternal_def Let_def sendEvent_def invalidate_def split: option.splits)

text \<open>Run without interruption, the two halves are \<^verbatim>\<open>recognizeData\<close>.\<close>

lemma recognizeData_halves:
  "recognizeData answer buffer s =
     (case recognizeGuards buffer s of
        None \<Rightarrow> ((None, False), s)
      | Some r \<Rightarrow> recognizeCalls answer r buffer s)"
  by (simp add: recognizeData_def recognizeGuards_def recognizeCalls_def Let_def
      split: option.splits)

subsection \<open>Starting without a model\<close>

text \<open>
  Claim C7. A call of \<^verbatim>\<open>start\<close> made while no model is loaded rejects the promise with
  the code \<open>start\<close> and the message \<open>No model loaded\<close>, and the session is left exactly as
  it was: no recognizer, tap, timer or queued block is created.
\<close>

theorem start_without_model_rejects:
  "currentModel s = None \<Longrightarrow> start env options s = (s, Reject ''start'' ''No model loaded'')"
  by (simp add: start_def)

theorem start_without_model_rejects_witness:
  "currentModel initial = None
   \<and> start envNoFailure None initial = (initial, Reject ''start'' ''No model loaded'')"
  using start_without_model_rejects [of initial envNoFailure None]
  by (simp add: initial_def)

subsection \<open>Loading a model\<close>

text \<open>
  Claim C10. The session has one optional reference to a model, \<open>currentModel\<close>, so it
  never references more than one. After \<^verbatim>\<open>loadModel\<close> it references the newly loaded
  model when the load succeeds and no model when it fails, whatever was loaded before:
  the previous model is dropped before the load is attempted. After a failed load the
  promise is rejected and a following \<^verbatim>\<open>start\<close> rejects with \<open>No model loaded\<close>.
\<close>

theorem loadModel_discards_previous:
  "currentModel (fst (loadModel loads name s)) =
     (if loads name then Some (VoskModel name) else None)
   \<and> (\<not> loads name \<longrightarrow>
        snd (loadModel loads name s) = Reject ''load_model'' ''Failed to load model''
        \<and> snd (start env options (fst (loadModel loads name s)))
            = Reject ''start'' ''No model loaded'')"
  by (simp add: loadModel_def start_def Let_def)

theorem loadModel_discards_previous_witness:
  "currentModel listening = Some (VoskModel ''model-en-us'')
   \<and> \<not> onlyEnglishLoads ''missing''
   \<and> currentModel (fst (loadModel onlyEnglishLoads ''missing'' listening)) = None
   \<and> snd (loadModel onlyEnglishLoads ''missing'' listening)
       = Reject ''load_model'' ''Failed to load model''
   \<and> snd (start envNoFailure None (fst (loadModel onlyEnglishLoads ''missing'' listening)))
       = Reject ''start'' ''No model loaded''"
  using loadModel_discards_previous [of onlyEnglishLoads "''missing''" listening envNoFailure None]
  by (simp add: onlyEnglishLoads_def listening_eq)

subsection \<open>The final result sent by stop\<close>

text \<open>
  Claim C2. Let \<^verbatim>\<open>stop\<close> be called while the session is listening (the audio engine is
  running) and a listener is subscribed. If the retained result holds a non-empty
  partial text, exactly one event is sent, \<open>onFinalResult\<close> with that text; if no result
  is retained or its partial text is absent or empty, no event is sent. A natural final
  supersedes a pending partial: once a completed result without partial text (the
  decoder's final answer carries \<open>text\<close> only) has been delivered, \<^verbatim>\<open>stop\<close> sends nothing.
\<close>

theorem stop_sends_pending_partial:
  assumes "audioEngineRunning s" and "hasListener s"
  shows "emitted s (stop s) =
           (case lastPartial s of
              Some p \<Rightarrow> if p \<noteq> [] then [(OnFinalResult, p)] else []
            | None \<Rightarrow> [])
         \<and> (jsonDecode json = Some r \<and> partial r = None \<longrightarrow>
              emitted (deliverResult jsonDecode (Some json) True s)
                (stop (deliverResult jsonDecode (Some json) True s)) = [])"
  using assms
  by (simp add: emitted_stop emitted_stopInternal lastPartial_deliverResult deliverResult_keeps)

theorem stop_sends_pending_partial_witness:
  "audioEngineRunning pendingPartial \<and> hasListener pendingPartial
   \<and> lastPartial pendingPartial = Some ''turn on''
   \<and> emitted pendingPartial (stop pendingPartial) = [(OnFinalResult, ''turn on'')]
   \<and> sampleDecode ''t:turn on the light''
       = Some \<lparr>partial = None, text' = Some ''turn on the light''\<rparr>
   \<and> emitted (deliverResult sampleDecode (Some ''t:turn on the light'') True pendingPartial)
        (stop (deliverResult sampleDecode (Some ''t:turn on the light'') True pendingPartial))
       = []"
  using stop_sends_pending_partial [of pendingPartial sampleDecode "''t:turn on the light''"
      "\<lparr>partial = None, text' = Some ''turn on the light''\<rparr>"]
  by (simp add: pendingPartial_eq listening_eq lastPartial_def sampleDecode_def)

subsection \<open>No event with an empty text\<close>

text \<open>
  Claim C5. Every event sent while a decode result is delivered has a non-empty body and
  is either \<open>onResult\<close>, for a completed result whose text is that body, or
  \<open>onPartialResult\<close>, for a result that is not completed and whose partial text is that
  body. Every event sent by the shutdown \<^verbatim>\<open>stopInternal\<close> (with or without events), and so
  by \<^verbatim>\<open>stop\<close> and \<^verbatim>\<open>unload\<close>, is \<open>onFinalResult\<close> with a non-empty body, the retained
  partial text. The forced stop of the timer sends no text at all: its only event is
  \<open>onTimeout\<close>, which has no text to carry.
\<close>

theorem text_events_are_never_empty:
  "(\<forall>e \<in> set (emitted s (deliverResult jsonDecode result completed s)).
      snd e \<noteq> [] \<and>
      (\<exists>json r. result = Some json \<and> jsonDecode json = Some r \<and>
         (fst e = OnResult \<and> completed \<and> text' r = Some (snd e)
          \<or> fst e = OnPartialResult \<and> \<not> completed \<and> partial r = Some (snd e))))
   \<and> (\<forall>e \<in> set (emitted s (stopInternal withoutEvents s)).
        fst e = OnFinalResult \<and> snd e \<noteq> [] \<and> lastPartial s = Some (snd e))
   \<and> (\<forall>e \<in> set (emitted s (stop s)).
        fst e = OnFinalResult \<and> snd e \<noteq> [] \<and> lastPartial s = Some (snd e))
   \<and> (\<forall>e \<in> set (emitted s (unload s)).
        fst e = OnFinalResult \<and> snd e \<noteq> [] \<and> lastPartial s = Some (snd e))
   \<and> (\<forall>e \<in> set (emitted s (runProcessingBlock answer TimeoutStop s)). fst e = OnTimeout)"
proof (intro conjI)
  show "\<forall>e \<in> set (emitted s (deliverResult jsonDecode result completed s)).
      snd e \<noteq> [] \<and>
      (\<exists>json r. result = Some json \<and> jsonDecode json = Some r \<and>
         (fst e = OnResult \<and> completed \<and> text' r = Some (snd e)
          \<or> fst e = OnPartialResult \<and> \<not> completed \<and> partial r = Some (snd e)))"
  proof (cases result)
    case None
    then show ?thesis by (simp add: emitted_deliverResult)
  next
    case json: (Some json)
    show ?thesis
    proof (cases "jsonDecode json")
      case None
      with json show ?thesis by (simp add: emitted_deliverResult)
    next
      case (Some r)
      with json show ?thesis
        by (auto simp: emitted_deliverResult split: option.splits if_splits)
    qed
  qed
next
  have shutdown: "fst e = OnFinalResult \<and> snd e \<noteq> [] \<and> lastPartial s = Some (snd e)"
    if "e \<in> set (emitted s (stopInternal w s))" for e w
    using that by (simp only: emitted_stopInternal split: if_splits option.splits) auto
  show "\<forall>e \<in> set (emitted s (stopInternal withoutEvents s)).
        fst e = OnFinalResult \<and> snd e \<noteq> [] \<and> lastPartial s = Some (snd e)"
    using shutdown by blast
  show "\<forall>e \<in> set (emitted s (stop s)).
        fst e = OnFinalResult \<and> snd e \<noteq> [] \<and> lastPartial s = Some (snd e)"
    unfolding emitted_stop using shutdown by blast
  show "\<forall>e \<in> set (emitted s (unload s)).
        fst e = OnFinalResult \<and> snd e \<noteq> [] \<and> lastPartial s = Some (snd e)"
    unfolding emitted_unload using shutdown by blast
next
  have "emitted s (runProcessingBlock answer TimeoutStop s) = [(OnTimeout, [])]"
    by (rule emitted_timeoutStop)
  then show "\<forall>e \<in> set (emitted s (runProcessingBlock answer TimeoutStop s)). fst e = OnTimeout"
    by simp
qed

theorem text_events_are_never_empty_witness:
  "(OnResult, ''turn on the light'')
     \<in> set (emitted pendingPartial
         (deliverResult sampleDecode (Some ''t:turn on the light'') True pendingPartial))
   \<and> ''turn on the light'' \<noteq> []
   \<and> (OnFinalResult, ''turn on'') \<in> set (emitted pendingPartial (stopInternal False pendingPartial))
   \<and> (OnFinalResult, ''turn on'') \<in> set (emitted pendingPartial (stop pendingPartial))
   \<and> (OnFinalResult, ''turn on'') \<in> set (emitted pendingPartial (unload pendingPartial))
   \<and> ''turn on'' \<noteq> [] \<and> lastPartial pendingPartial = Some ''turn on''
   \<and> (OnTimeout, [])
       \<in> set (emitted pendingPartial
           (runProcessingBlock (answerPartial []) TimeoutStop pendingPartial))"
  using text_events_are_never_empty [of pendingPartial sampleDecode "Some ''t:turn on the light''"
      True False "answerPartial []"]
  by (simp add: pendingPartial_eq listening_eq sampleDecode_def emitted_deliverResult
      emitted_stopInternal emitted_stop emitted_unload emitted_timeoutStop lastPartial_def
      del: runProcessingBlock.simps)

subsection \<open>Repeated partial results\<close>

text \<open>
  Claim C4 as stated fails. With a listener subscribed, the decoder answers three
  buffers with the partial text \<open>yes\<close>, the final text \<open>yes\<close> and again the partial text
  \<open>yes\<close>. The third result is not final, its text is not empty and equals the last
  partial text that was sent, and \<open>onPartialResult\<close> is sent for it all the same: the
  code compares with the partial text of the retained result, which the final result
  has replaced.
\<close>

theorem partial_repeated_after_final_counterexample:
  "events (run anyModelLoads sampleDecode
     [TapBuffer sampleBuffer, RunProcessing (answerPartial ''yes''), RunMain,
      TapBuffer sampleBuffer, RunProcessing (answerFinal ''yes''), RunMain,
      TapBuffer sampleBuffer, RunProcessing (answerPartial ''yes''), RunMain] listening)
   = [(OnPartialResult, ''yes''), (OnResult, ''yes''), (OnPartialResult, ''yes'')]"
  unfolding listening_eq by (simp add: sample_defs code_defs)

text \<open>
  Claim C4, amended. A result that is not final and has a non-empty partial text sends
  \<open>onPartialResult\<close> with that text if and only if a listener is subscribed and the text
  differs from the partial text of the retained result, which is the result delivered
  last, final or not (none after a stop). In particular, of two consecutive results
  that are not final and have the same partial text, the second sends nothing, so at
  most one \<open>onPartialResult\<close> is sent for the two.
\<close>

theorem partial_sent_iff_differs_from_retained:
  assumes "jsonDecode json = Some r" and "partial r = Some p" and "p \<noteq> []"
    and "jsonDecode json' = Some r'" and "partial r' = Some p"
  shows "emitted s (deliverResult jsonDecode (Some json) False s) =
           (if hasListener s \<and> lastPartial s \<noteq> Some p then [(OnPartialResult, p)] else [])
         \<and> emitted (deliverResult jsonDecode (Some json) False s)
             (deliverResult jsonDecode (Some json') False
               (deliverResult jsonDecode (Some json) False s)) = []
         \<and> length (emitted s
             (deliverResult jsonDecode (Some json') False
               (deliverResult jsonDecode (Some json) False s))) \<le> 1"
proof -
  let ?s1 = "deliverResult jsonDecode (Some json) False s"
  let ?s2 = "deliverResult jsonDecode (Some json') False ?s1"
  have first: "emitted s ?s1 =
      (if hasListener s \<and> lastPartial s \<noteq> Some p then [(OnPartialResult, p)] else [])"
    using assms by (simp add: emitted_deliverResult)
  have second: "emitted ?s1 ?s2 = []"
    using assms by (simp add: emitted_deliverResult lastPartial_deliverResult)
  have "events ?s1 = events s @ emitted s ?s1"
    by (simp add: emitted_def deliverResult_def sendEvent_def Let_def split: option.splits)
  moreover have "events ?s2 = events ?s1 @ emitted ?s1 ?s2"
    by (simp add: emitted_def deliverResult_def sendEvent_def Let_def split: option.splits)
  ultimately have "emitted s ?s2 = emitted s ?s1"
    using second by (simp add: emitted_def)
  with first second show ?thesis by simp
qed

theorem partial_sent_iff_differs_from_retained_witness:
  "sampleDecode ''p:hel'' = Some \<lparr>partial = Some ''hel'', text' = None\<rparr>
   \<and> ''hel'' \<noteq> []
   \<and> emitted listening (deliverResult sampleDecode (Some ''p:hel'') False listening)
       = [(OnPartialResult, ''hel'')]
   \<and> emitted (deliverResult sampleDecode (Some ''p:hel'') False listening)
       (deliverResult sampleDecode (Some ''p:hel'') False
         (deliverResult sampleDecode (Some ''p:hel'') False listening)) = []"
  using partial_sent_iff_differs_from_retained [of sampleDecode "''p:hel''"
      "\<lparr>partial = Some ''hel'', text' = None\<rparr>" "''hel''" "''p:hel''"
      "\<lparr>partial = Some ''hel'', text' = None\<rparr>" listening]
  by (simp add: listening_eq sampleDecode_def lastPartial_def)

subsection \<open>A start that fails\<close>

text \<open>
  Claim C8 as stated fails, in two places. First, a failure of the audio-format setup
  is not thrown: when \<^verbatim>\<open>AVAudioFormat\<close> returns nil, \<^verbatim>\<open>start\<close> rejects at that guard and
  returns. With a listener subscribed and a recognizer still held (the session was
  stopped and its release is pending) the promise is rejected, but no \<open>onError\<close> is sent
  and the recognizer is neither freed nor set to null. Second, when activating the
  audio session throws in a call made while the session is listening, the catch block
  frees the recognizer of the running session and leaves the tap installed and the
  engine running: the session is not in the loaded state.
\<close>

theorem start_failure_not_rolled_back_counterexample:
  "hasListener (stop listening)
   \<and> recognizer (stop listening) = Some 0
   \<and> snd (start envNoAudioFormat None (stop listening))
       = Reject ''start'' ''Unable to create audio format''
   \<and> emitted (stop listening) (fst (start envNoAudioFormat None (stop listening))) = []
   \<and> recognizer (fst (start envNoAudioFormat None (stop listening))) = Some 0
   \<and> snd (start envSetActiveThrows None listening) = Reject ''start'' ''session busy''
   \<and> recognizer (fst (start envSetActiveThrows None listening)) = None
   \<and> tapInstalled (fst (start envSetActiveThrows None listening))
   \<and> audioEngineRunning (fst (start envSetActiveThrows None listening))
   \<and> \<not> isLoaded (fst (start envSetActiveThrows None listening))"
  unfolding listening_eq by (simp add: sample_defs code_defs isLoaded_def)

text \<open>
  Claim C8, amended. Let a model be loaded. The calls of \<^verbatim>\<open>start\<close> that can throw are
  setting the category of the audio session, activating the session and encoding a
  non-empty grammar; all three come before the recognizer is created. When one of them
  throws an error with description \<open>d\<close>, the catch block runs before \<^verbatim>\<open>start\<close> returns:
  the promise is rejected with the code \<open>start\<close> and \<open>d\<close>; \<open>onError\<close> is sent exactly
  when a listener is subscribed; a recognizer the session still held from before the
  call is freed and the session holds none afterwards; and nothing else changes, so no
  recognizer, tap, timer, permission request or queued block is created. If the call
  was made while the session had no tap, a stopped engine and no timer, the session is
  in the loaded state afterwards. When the audio format cannot be constructed nothing
  is thrown: \<^verbatim>\<open>start\<close> rejects with \<open>Unable to create audio format\<close> and leaves the
  session as it was.
\<close>

theorem start_throw_rolls_back:
  assumes "currentModel s = Some model"
  shows "(setCategory env = Some d
          \<or> setCategory env = None \<and> setActive env = Some d
          \<or> setCategory env = None \<and> setActive env = None \<and> formatPcm env
             \<and> options = Some opts \<and> grammar opts = Some g \<and> g \<noteq> []
             \<and> encodeGrammar env = Some d
          \<longrightarrow>
            snd (start env options s) = Reject ''start'' d
            \<and> recognizer (fst (start env options s)) = None
            \<and> decoderCalls (fst (start env options s)) =
                decoderCalls s @ (case recognizer s of Some r \<Rightarrow> [RecognizerFree r] | None \<Rightarrow> [])
            \<and> emitted s (fst (start env options s)) =
                (if hasListener s then [(OnError, ''Unable to start AVAudioEngine: '' @ d)]
                 else [])
            \<and> (fst (start env options s))\<lparr>recognizer := recognizer s, events := events s,
                  decoderCalls := decoderCalls s\<rparr> = s
            \<and> (\<not> tapInstalled s \<and> \<not> audioEngineRunning s \<and> timeoutTimer s = None
                 \<longrightarrow> isLoaded (fst (start env options s))))
         \<and> (setCategory env = None \<and> setActive env = None \<and> \<not> formatPcm env
              \<longrightarrow> start env options s = (s, Reject ''start'' ''Unable to create audio format''))"
proof (intro conjI impI)
  assume throws: "setCategory env = Some d
          \<or> setCategory env = None \<and> setActive env = Some d
          \<or> setCategory env = None \<and> setActive env = None \<and> formatPcm env
             \<and> options = Some opts \<and> grammar opts = Some g \<and> g \<noteq> []
             \<and> encodeGrammar env = Some d"
  have caught: "start env options s = startCatch d s"
    using assms throws by (auto simp: start_def)
  show "snd (start env options s) = Reject ''start'' d"
    unfolding caught by (rule snd_startCatch)
  show "recognizer (fst (start env options s)) = None"
    unfolding caught by (simp add: startCatch_def Let_def sendEvent_def split: option.splits)
  show "decoderCalls (fst (start env options s)) =
      decoderCalls s @ (case recognizer s of Some r \<Rightarrow> [RecognizerFree r] | None \<Rightarrow> [])"
    unfolding caught by (simp add: startCatch_def Let_def sendEvent_def split: option.splits)
  show "emitted s (fst (start env options s)) =
      (if hasListener s then [(OnError, ''Unable to start AVAudioEngine: '' @ d)] else [])"
    unfolding caught
    by (simp add: startCatch_def Let_def sendEvent_def emitted_def split: option.splits)
  show "(fst (start env options s))\<lparr>recognizer := recognizer s, events := events s,
      decoderCalls := decoderCalls s\<rparr> = s"
    unfolding caught by (simp add: startCatch_def Let_def sendEvent_def split: option.splits)
  show "isLoaded (fst (start env options s))"
    if "\<not> tapInstalled s \<and> \<not> audioEngineRunning s \<and> timeoutTimer s = None"
    unfolding caught using that assms
    by (simp add: isLoaded_def startCatch_def Let_def sendEvent_def split: option.splits)
next
  assume "setCategory env = None \<and> setActive env = None \<and> \<not> formatPcm env"
  with assms show "start env options s = (s, Reject ''start'' ''Unable to create audio format'')"
    by (simp add: start_def)
qed

theorem start_throw_rolls_back_witness:
  "currentModel (stop listening) = Some (VoskModel ''model-en-us'')
   \<and> setCategory envSetActiveThrows = None
   \<and> setActive envSetActiveThrows = Some ''session busy''
   \<and> recognizer (stop listening) = Some 0
   \<and> \<not> tapInstalled (stop listening) \<and> \<not> audioEngineRunning (stop listening)
   \<and> timeoutTimer (stop listening) = None
   \<and> snd (start envSetActiveThrows None (stop listening)) = Reject ''start'' ''session busy''
   \<and> recognizer (fst (start envSetActiveThrows None (stop listening))) = None
   \<and> decoderCalls (fst (start envSetActiveThrows None (stop listening))) = [RecognizerFree 0]
   \<and> emitted (stop listening) (fst (start envSetActiveThrows None (stop listening)))
       = [(OnError, ''Unable to start AVAudioEngine: session busy'')]
   \<and> isLoaded (fst (start envSetActiveThrows None (stop listening)))
   \<and> setCategory envNoAudioFormat = None \<and> setActive envNoAudioFormat = None
   \<and> \<not> formatPcm envNoAudioFormat
   \<and> start envNoAudioFormat None (stop listening)
       = (stop listening, Reject ''start'' ''Unable to create audio format'')"
  using start_throw_rolls_back [where s = "stop listening"
        and model = "VoskModel ''model-en-us''" and env = envSetActiveThrows
        and d = "''session busy''" and options = None]
    start_throw_rolls_back [where s = "stop listening"
        and model = "VoskModel ''model-en-us''" and env = envNoAudioFormat
        and options = None]
  by (simp add: listening_eq envSetActiveThrows_def envNoAudioFormat_def stop_def
      stopInternal_def Let_def lastPartial_def nonEmpty_def)

subsection \<open>Denied access to the microphone\<close>

text \<open>
  Claim C9 as stated fails. On iOS the wrapper does not ask for the permission; the
  native \<^verbatim>\<open>start\<close> creates the recognizer and installs the tap, resolves the promise with
  \<open>Recognizer successfully started\<close>, and learns of the denial only in the callback of
  \<^verbatim>\<open>requestRecordPermission\<close>, which then merely leaves the engine stopped. The call is not
  a failure, and a recognizer and a tap exist.
\<close>

theorem permission_denied_on_ios_counterexample:
  "snd (jsStart (start envNoFailure) ''ios'' DENIED None loaded)
     = Resolve (JString ''Recognizer successfully started'')
   \<and> recognizer (permissionCallback False True
        (fst (jsStart (start envNoFailure) ''ios'' DENIED None loaded))) = Some 0
   \<and> tapInstalled (permissionCallback False True
        (fst (jsStart (start envNoFailure) ''ios'' DENIED None loaded)))
   \<and> \<not> audioEngineRunning (permissionCallback False True
        (fst (jsStart (start envNoFailure) ''ios'' DENIED None loaded)))"
  by (simp add: loaded_eq initial_def envNoFailure_def jsStart_def requestRecordPermission_def
      start_def startListening_def assignRecognizer_def permissionCallback_def Let_def)

text \<open>
  Claim C9, amended. When the permission request of the JavaScript wrapper is denied,
  which can happen on platforms other than iOS only, the native \<^verbatim>\<open>start\<close> is not called:
  the session is unchanged, so no audio or decoder resource is created, and the promise
  resolves with \<^verbatim>\<open>undefined\<close>; no failure is surfaced. On iOS the wrapper always calls the
  native \<^verbatim>\<open>start\<close>, and a denial reported to the permission callback changes nothing
  in the session: the engine is not started and nothing is rolled back.
\<close>

theorem permission_denied_resolves:
  "(\<not> requestRecordPermission os granted \<longrightarrow>
      os \<noteq> ''ios'' \<and> jsStart nativeStart os granted options s = (s, Resolve JUndefined))
   \<and> jsStart nativeStart ''ios'' granted options s = nativeStart options s
   \<and> permissionCallback False engineStarts s = s"
  by (simp add: jsStart_def requestRecordPermission_def permissionCallback_def)

theorem permission_denied_resolves_witness:
  "\<not> requestRecordPermission ''android'' DENIED
   \<and> jsStart (start envNoFailure) ''android'' DENIED None loaded = (loaded, Resolve JUndefined)
   \<and> jsStart (start envNoFailure) ''ios'' DENIED None loaded = start envNoFailure None loaded"
  using permission_denied_resolves [of "''android''" DENIED "start envNoFailure" None loaded]
  by (simp add: requestRecordPermission_def)

subsection \<open>Timeouts that are not positive\<close>

text \<open>
  Claim C6 as stated fails. A session is started with the timeout 0. The creation of
  the timer is dispatched to the main queue as for any other value; once that block has
  run a timer is scheduled, it falls due at once (\<^verbatim>\<open>Timer\<close> replaces an interval that is
  not positive by 0.1 ms), it fires, and the forced stop sends \<open>onTimeout\<close>. The same
  happens with the timeout -5.
\<close>

theorem zero_timeout_arms_timer_counterexample:
  "scheduledTimers (run anyModelLoads sampleDecode
      [CallStart (timeoutOnly 0) envNoFailure, RunMain] loaded) = [(0, 0)]
   \<and> events (run anyModelLoads sampleDecode
      [CallStart (timeoutOnly 0) envNoFailure, RunMain, TimerFire,
       RunProcessing (answerPartial [])] loaded) = [(OnTimeout, [])]
   \<and> events (run anyModelLoads sampleDecode
      [CallStart (timeoutOnly (- 5)) envNoFailure, RunMain, TimerFire,
       RunProcessing (answerPartial [])] loaded) = [(OnTimeout, [])]"
  unfolding loaded_eq by (simp add: sample_defs code_defs)

text \<open>
  Claim C6, amended. For every call of \<^verbatim>\<open>start\<close> that succeeds, the creation of the
  timer is dispatched to the main queue exactly when the options carry a timeout value,
  whatever its sign; only an absent timeout arms no timer. The dispatched block
  schedules a one-shot timer for any value \<open>t\<close> and keeps it in \<open>timeoutTimer\<close>; for a
  value that is zero or negative the timer is due at once.
\<close>

theorem timer_armed_for_every_timeout_value:
  assumes "snd (start env options s) = Resolve v"
  shows "mainQueue (fst (start env options s)) =
           mainQueue s @ (case options of
                            None \<Rightarrow> []
                          | Some opts \<Rightarrow> (case timeout opts of None \<Rightarrow> [] | Some t \<Rightarrow> [ArmTimer t]))
         \<and> scheduledTimers (runMainBlock jsonDecode (ArmTimer t) s') =
             scheduledTimers s' @ [(nextTimer s', now s' + nat t)]
         \<and> timeoutTimer (runMainBlock jsonDecode (ArmTimer t) s') = Some (nextTimer s')
         \<and> (t \<le> 0 \<longrightarrow> now s' + nat t = now s')"
proof -
  have "start env options s =
      startListening (case options of None \<Rightarrow> None | Some opts \<Rightarrow> timeout opts)
        (assignRecognizer env s)"
    using assms by (rule start_resolves)
  then have "mainQueue (fst (start env options s)) =
           mainQueue s @ (case options of
                            None \<Rightarrow> []
                          | Some opts \<Rightarrow> (case timeout opts of None \<Rightarrow> [] | Some t \<Rightarrow> [ArmTimer t]))"
    by (simp add: startListening_def assignRecognizer_def Let_def split: option.splits)
  then show ?thesis by simp
qed

theorem timer_armed_for_every_timeout_value_witness:
  "snd (start envNoFailure (timeoutOnly 0) loaded)
     = Resolve (JString ''Recognizer successfully started'')
   \<and> mainQueue (fst (start envNoFailure (timeoutOnly 0) loaded)) = [ArmTimer 0]
   \<and> scheduledTimers (runMainBlock sampleDecode (ArmTimer 0)
        (fst (start envNoFailure (timeoutOnly 0) loaded))) = [(0, 0)]
   \<and> timeoutTimer (runMainBlock sampleDecode (ArmTimer 0)
        (fst (start envNoFailure (timeoutOnly 0) loaded))) = Some 0
   \<and> (0::int) \<le> 0"
  using timer_armed_for_every_timeout_value [of envNoFailure "timeoutOnly 0" loaded
      "JString ''Recognizer successfully started''" sampleDecode 0
      "fst (start envNoFailure (timeoutOnly 0) loaded)"]
  by (simp add: loaded_eq initial_def envNoFailure_def timeoutOnly_def start_def
      startListening_def assignRecognizer_def Let_def)

subsection \<open>The timer and stop\<close>

text \<open>
  What holds of the timer. The block the timer dispatches runs the shutdown without
  events and then sends \<open>onTimeout\<close>: exactly one event, and it is not \<open>onFinalResult\<close>. A
  timer that has been created when \<^verbatim>\<open>stop\<close> is called is taken off the run loop and can
  no longer fire.
\<close>

lemma timeout_block_is_forced_stop:
  "runProcessingBlock answer TimeoutStop s = sendEvent OnTimeout [] (stopInternal True s)
   \<and> emitted s (runProcessingBlock answer TimeoutStop s) = [(OnTimeout, [])]"
  by (simp add: emitted_timeoutStop del: runProcessingBlock.simps) simp

lemma stop_cancels_created_timer:
  assumes "timeoutTimer s = Some t"
  shows "timeoutTimer (stop s) = None \<and> t \<notin> fst ` set (scheduledTimers (stop s))"
  using assms
  by (auto simp: stop_def stopInternal_def Let_def sendEvent_def invalidate_def
      split: option.splits)

text \<open>
  Claim C3 fails on the code where \<^verbatim>\<open>stop\<close> is called before the main queue has run the
  block in which \<^verbatim>\<open>start\<close> creates the timer. A session is started with a timeout of 5000
  ms, the engine starts, and the session is stopped at once: \<open>timeoutTimer\<close> is still
  empty, so \<^verbatim>\<open>stop\<close> cancels nothing. The main queue then runs the block, the timer is
  created after the stop, fires 5000 ms later, and the forced stop sends \<open>onTimeout\<close>,
  although \<^verbatim>\<open>stop\<close> was called first.
\<close>

theorem timer_created_after_stop_fires:
  "audioEngineRunning (run anyModelLoads sampleDecode
      [CallStart (timeoutOnly 5000) envNoFailure, PermissionCallback True True] loaded)
   \<and> timeoutTimer (run anyModelLoads sampleDecode
      [CallStart (timeoutOnly 5000) envNoFailure, PermissionCallback True True,
       CallStop] loaded) = None
   \<and> mainQueue (run anyModelLoads sampleDecode
      [CallStart (timeoutOnly 5000) envNoFailure, PermissionCallback True True,
       CallStop] loaded) = [ArmTimer 5000]
   \<and> scheduledTimers (run anyModelLoads sampleDecode
      [CallStart (timeoutOnly 5000) envNoFailure, PermissionCallback True True,
       CallStop, RunMain] loaded) = [(0, 5000)]
   \<and> events (run anyModelLoads sampleDecode
      [CallStart (timeoutOnly 5000) envNoFailure, PermissionCallback True True,
       CallStop, RunMain, Elapse 5000, TimerFire, RunProcessing (answerPartial [])] loaded)
     = [(OnTimeout, [])]"
  unfolding loaded_eq by (simp add: sample_defs code_defs)

subsection \<open>The order of the shutdown\<close>

text \<open>
  Claim C1 as stated fails. While the session is listening the tap admits a buffer to
  the decode queue; \<^verbatim>\<open>stop\<close> is called; 500 ms pass before the decode queue gets to run;
  the block of \<^verbatim>\<open>asyncAfter\<close> falls due. In a first run the main queue runs it at once:
  the recognizer has been freed while the admitted buffer is still waiting in the decode
  queue, and when its block runs at last it finds no recognizer and makes no decode
  call, so the buffer is dropped, not drained. In a second run the decoding block starts
  first: it passes its guards (\<open>isCleaningUp\<close> was reset when \<^verbatim>\<open>stop\<close> returned, the
  recognizer is not null yet) and binds the recognizer; the main queue then frees that
  recognizer; the block goes on to call the decoder on the pointer it has bound. A
  decode call is made after the release.
\<close>

theorem release_overtakes_admitted_buffer_counterexample:
  "processingQueue (run anyModelLoads sampleDecode
      [TapBuffer sampleBuffer, CallStop, Elapse 500, AfterDue, RunMain] listening)
     = [Recognize sampleBuffer]
   \<and> decoderCalls (run anyModelLoads sampleDecode
      [TapBuffer sampleBuffer, CallStop, Elapse 500, AfterDue, RunMain] listening)
     = [RecognizerFree 0]
   \<and> decoderCalls (run anyModelLoads sampleDecode
      [TapBuffer sampleBuffer, CallStop, Elapse 500, AfterDue, RunMain,
       RunProcessing (answerPartial ''turn on'')] listening)
     = [RecognizerFree 0]
   \<and> processingQueue (run anyModelLoads sampleDecode
      [TapBuffer sampleBuffer, CallStop, Elapse 500, AfterDue, BeginRecognize] listening)
     = [Decoding 0 sampleBuffer]
   \<and> decoderCalls (run anyModelLoads sampleDecode
      [TapBuffer sampleBuffer, CallStop, Elapse 500, AfterDue, BeginRecognize, RunMain,
       RunProcessing (answerPartial ''turn on'')] listening)
     = [RecognizerFree 0, AcceptWaveform 0 sampleBuffer]
   \<and> \<not> noDecodeAfterFree [] (decoderCalls (run anyModelLoads sampleDecode
      [TapBuffer sampleBuffer, CallStop, Elapse 500, AfterDue, BeginRecognize, RunMain,
       RunProcessing (answerPartial ''turn on'')] listening))"
  unfolding listening_eq by (simp add: sample_defs code_defs)

text \<open>
  The release block frees the recognizer the session holds when the block runs, which
  need not be the one that was stopped: when \<^verbatim>\<open>start\<close> is called again within the 500 ms,
  the block frees the recognizer of the new session and the stopped one is never freed.
\<close>

lemma release_block_frees_held_recognizer:
  "recognizer (run anyModelLoads sampleDecode
      [CallStop, CallStart None envNoFailure] listening) = Some 1
   \<and> recognizer (run anyModelLoads sampleDecode
      [CallStop, CallStart None envNoFailure, Elapse 500, AfterDue, RunMain] listening) = None
   \<and> decoderCalls (run anyModelLoads sampleDecode
      [CallStop, CallStart None envNoFailure, Elapse 500, AfterDue, RunMain] listening)
     = [RecognizerFree 1]"
  unfolding listening_eq by (simp add: sample_defs code_defs)

text \<open>
  Claim C1, amended. The shutdown \<^verbatim>\<open>stopInternal\<close> removes the capture tap at once and
  does not free the recognizer itself: it leaves the recognizer, the decoder calls and
  the decode queue as they are and dispatches the release block to the main queue with a
  fixed delay of 500 ms, whatever the decode queue still holds; the forced stop of the
  timer is this same shutdown followed by \<open>onTimeout\<close>. When the release block runs it
  frees the recognizer the session holds at that moment, if any, and sets it to null. A
  decoding block that starts while \<open>isCleaningUp\<close> is set or while the recognizer is
  null fails its guards and returns without a decode call, so a buffer admitted before
  the stop may be dropped.
\<close>

theorem shutdown_releases_after_fixed_delay:
  "tapInstalled (stopInternal withoutEvents s) = False
   \<and> mainAfter (stopInternal withoutEvents s) = mainAfter s @ [(now s + 500, FreeRecognizer)]
   \<and> recognizer (stopInternal withoutEvents s) = recognizer s
   \<and> decoderCalls (stopInternal withoutEvents s) = decoderCalls s
   \<and> processingQueue (stopInternal withoutEvents s) = processingQueue s
   \<and> runProcessingBlock answer TimeoutStop s = sendEvent OnTimeout [] (stopInternal True s)
   \<and> recognizer (runMainBlock jsonDecode FreeRecognizer s) = None
   \<and> decoderCalls (runMainBlock jsonDecode FreeRecognizer s) =
       decoderCalls s @ (case recognizer s of Some r \<Rightarrow> [RecognizerFree r] | None \<Rightarrow> [])
   \<and> (isCleaningUp s \<or> recognizer s = None \<longrightarrow>
        recognizeGuards buffer s = None
        \<and> recognizeData answer buffer s = ((None, False), s))"
proof -
  have "tapInstalled (stopInternal withoutEvents s) = False"
    and "mainAfter (stopInternal withoutEvents s) = mainAfter s @ [(now s + 500, FreeRecognizer)]"
    by (simp_all add: stopInternal_def Let_def sendEvent_def invalidate_def
        split: option.splits)
  moreover have "recognizer (runMainBlock jsonDecode FreeRecognizer s) = None"
    and "decoderCalls (runMainBlock jsonDecode FreeRecognizer s) =
       decoderCalls s @ (case recognizer s of Some r \<Rightarrow> [RecognizerFree r] | None \<Rightarrow> [])"
    by (simp_all split: option.splits)
  moreover have "isCleaningUp s \<or> recognizer s = None \<longrightarrow>
        recognizeGuards buffer s = None
        \<and> recognizeData answer buffer s = ((None, False), s)"
    by (auto simp: recognizeData_def recognizeGuards_def)
  ultimately show ?thesis
    by (simp add: stopInternal_keeps)
qed

theorem shutdown_releases_after_fixed_delay_witness:
  "tapInstalled listening
   \<and> tapInstalled (stopInternal False listening) = False
   \<and> mainAfter (stopInternal False listening) = [(500, FreeRecognizer)]
   \<and> recognizer stoppedWithBuffer = Some 0
   \<and> mainQueue stoppedWithBuffer = [FreeRecognizer]
   \<and> processingQueue stoppedWithBuffer = [Recognize sampleBuffer]
   \<and> decoderCalls (runMainBlock sampleDecode FreeRecognizer stoppedWithBuffer)
       = [RecognizerFree 0]
   \<and> recognizer (runMainBlock sampleDecode FreeRecognizer stoppedWithBuffer) = None
   \<and> recognizeGuards sampleBuffer (runMainBlock sampleDecode FreeRecognizer stoppedWithBuffer)
       = None
   \<and> recognizeData (answerPartial ''turn on'') sampleBuffer
        (runMainBlock sampleDecode FreeRecognizer stoppedWithBuffer)
       = ((None, False), runMainBlock sampleDecode FreeRecognizer stoppedWithBuffer)"
  using shutdown_releases_after_fixed_delay [where withoutEvents = False and s = listening]
    shutdown_releases_after_fixed_delay [where s = stoppedWithBuffer
      and jsonDecode = sampleDecode]
    shutdown_releases_after_fixed_delay [where
      s = "runMainBlock sampleDecode FreeRecognizer stoppedWithBuffer"
      and answer = "answerPartial ''turn on''" and buffer = sampleBuffer]
  by (simp add: stoppedWithBuffer_eq listening_eq)

end
